theory Spec2Isabelle
  imports Main "HOL-Library.Word"
begin

section \<open>Smartpointer.cpp: manual release against scope-bound release\<close>

text \<open>
  The program defines a class \<open>Resource\<close> holding one \<open>int\<close>, whose constructor,
  destructor and \<open>display\<close> member each write one line to \<open>std::cout\<close>, and two
  routines: \<open>withoutSmartPointer\<close> (\<open>new\<close>, \<open>display\<close>, \<open>delete\<close>) and
  \<open>withUniquePointer\<close> (\<open>std::make_unique\<close>, \<open>display\<close>, release at the end of the
  block). \<open>main\<close> prints a header before each routine and an empty line after it.

  The embedding threads an explicit state through every call: the free store, the
  counter that names the next allocated object, and the lines written to \<open>std::cout\<close>.
  Every line is kept together with the object that wrote it, so that statements about
  "the destruction signal of this instance" can be made; \<open>render\<close> gives the text that
  reaches the terminal.
\<close>

subsection \<open>Decimal output of an int\<close>

text \<open>\<open>std::cout << data\<close> for an \<open>int\<close>: a minus sign for negative values, then the
  decimal digits without leading zeros.\<close>

definition digit_char :: "nat \<Rightarrow> char" where
  "digit_char d = ''0123456789'' ! d"

function string_of_nat :: "nat \<Rightarrow> string" where
  "string_of_nat n =
     (if n < 10 then [digit_char n]
      else string_of_nat (n div 10) @ [digit_char (n mod 10)])"
  by pat_completeness auto
termination
  by (relation "measure (\<lambda>n. n)") auto

declare string_of_nat.simps [simp del]

definition string_of_int :: "int \<Rightarrow> string" where
  "string_of_int i =
     (if i < 0 then CHR ''-'' # string_of_nat (nat (- i)) else string_of_nat (nat i))"

subsection \<open>State: free store and standard output\<close>

text \<open>\<open>class Resource { int data; }\<close>: the only field is a 32-bit signed integer.\<close>

record Resource =
  data :: "32 word"

text \<open>An object is named by the number it got when it was allocated; a raw pointer
  \<open>Resource *\<close> is such a number.\<close>

type_synonym ptr = nat

text \<open>One entry per \<open>std::cout << ... << std::endl\<close> statement of the source.\<close>

datatype event =
    Constructed ptr "32 word"
  | Displayed ptr "32 word"
  | Destructed ptr "32 word"
  | Text string

definition render :: "event \<Rightarrow> string" where
  "render e =
     (case e of
        Constructed p v \<Rightarrow> ''Resource constructor. Value: '' @ string_of_int (sint v)
      | Displayed p v \<Rightarrow> ''Value: '' @ string_of_int (sint v)
      | Destructed p v \<Rightarrow> ''Resource destructor. Value: '' @ string_of_int (sint v)
      | Text s \<Rightarrow> s)"

record state =
  heap :: "ptr \<rightharpoonup> Resource"
  next_id :: nat
  cout :: "event list"

definition initial_state :: state where
  "initial_state = \<lparr>heap = Map.empty, next_id = 0, cout = []\<rparr>"

definition stdout_lines :: "state \<Rightarrow> string list" where
  "stdout_lines s = map render (cout s)"

text \<open>Using a pointer to an object that is not alive, or an empty \<open>unique_ptr\<close>, is
  undefined behaviour in C++; the model makes it an error value.\<close>

datatype error = DanglingPointer ptr | NullPointer

type_synonym 'a prog = "state \<Rightarrow> error + ('a \<times> state)"

definition ret :: "'a \<Rightarrow> 'a prog" where
  "ret x s = Inr (x, s)"

definition bnd :: "'a prog \<Rightarrow> ('a \<Rightarrow> 'b prog) \<Rightarrow> 'b prog" where
  "bnd m f s = (case m s of Inl e \<Rightarrow> Inl e | Inr (x, s') \<Rightarrow> f x s')"

definition println :: "event \<Rightarrow> unit prog" where
  "println e s = Inr ((), s\<lparr>cout := cout s @ [e]\<rparr>)"

subsection \<open>class Resource\<close>

text \<open>\<open>Resource(int value) : data(value) { cout << "Resource constructor. Value: " << data << endl; }\<close>
  The field is initialised first; the line prints the field.\<close>

definition Resource_ctor :: "ptr \<Rightarrow> 32 word \<Rightarrow> unit prog" where
  "Resource_ctor this v s =
     (let s1 = s\<lparr>heap := (heap s)(this \<mapsto> \<lparr>data = v\<rparr>)\<rparr> in
      case heap s1 this of
        None \<Rightarrow> Inl (DanglingPointer this)
      | Some r \<Rightarrow> println (Constructed this (data r)) s1)"

text \<open>\<open>~Resource() { cout << "Resource destructor. Value: " << data << endl; }\<close>\<close>

definition Resource_dtor :: "ptr \<Rightarrow> unit prog" where
  "Resource_dtor this s =
     (case heap s this of
        None \<Rightarrow> Inl (DanglingPointer this)
      | Some r \<Rightarrow> println (Destructed this (data r)) s)"

text \<open>\<open>void display() { cout << "Value: " << data << endl; }\<close>\<close>

definition display :: "ptr \<Rightarrow> unit prog" where
  "display this s =
     (case heap s this of
        None \<Rightarrow> Inl (DanglingPointer this)
      | Some r \<Rightarrow> println (Displayed this (data r)) s)"

subsection \<open>new, delete and std::unique_ptr\<close>

text \<open>\<open>new Resource(v)\<close>: take storage for a new object, run the constructor on it, give
  back the pointer.\<close>

definition new_Resource :: "32 word \<Rightarrow> ptr prog" where
  "new_Resource v s =
     (let p = next_id s in
      bnd (Resource_ctor p v) (\<lambda>_. ret p) (s\<lparr>next_id := Suc p\<rparr>))"

text \<open>\<open>delete p\<close>: run the destructor, then give the storage back.\<close>

definition delete_Resource :: "ptr \<Rightarrow> unit prog" where
  "delete_Resource p =
     bnd (Resource_dtor p) (\<lambda>_ s. Inr ((), s\<lparr>heap := (heap s)(p := None)\<rparr>))"

text \<open>A \<open>std::unique_ptr<Resource>\<close> holds a raw pointer or nothing.\<close>

type_synonym unique_ptr = "ptr option"

definition make_unique :: "32 word \<Rightarrow> unique_ptr prog" where
  "make_unique v = bnd (new_Resource v) (\<lambda>p. ret (Some p))"

text \<open>\<open>operator->\<close>\<close>

definition unique_ptr_arrow :: "unique_ptr \<Rightarrow> ptr prog" where
  "unique_ptr_arrow u s = (case u of None \<Rightarrow> Inl NullPointer | Some p \<Rightarrow> Inr (p, s))"

text \<open>\<open>~unique_ptr()\<close>: deletes the held object, if there is one.\<close>

definition unique_ptr_dtor :: "unique_ptr \<Rightarrow> unit prog" where
  "unique_ptr_dtor u = (case u of None \<Rightarrow> ret () | Some p \<Rightarrow> delete_Resource p)"

text \<open>The three ways control can leave a block of C++.\<close>

datatype exit_kind = NormalCompletion | EarlyReturn | ErrorUnwind

text \<open>A block with one local \<open>unique_ptr\<close>: when its statements have run, the destructor
  of the local runs before control reaches the caller. The block of \<open>withUniquePointer\<close>
  is only ever left through its closing brace.\<close>

definition unique_ptr_scope :: "unique_ptr \<Rightarrow> exit_kind prog \<Rightarrow> exit_kind prog" where
  "unique_ptr_scope u body =
     bnd body (\<lambda>k. bnd (unique_ptr_dtor u) (\<lambda>_. ret k))"

subsection \<open>The two demonstrations and main\<close>

definition withoutSmartPointer :: "unit prog" where
  "withoutSmartPointer =
     bnd (new_Resource 42) (\<lambda>rawPtr.
     bnd (display rawPtr) (\<lambda>_.
     bnd (delete_Resource rawPtr) (\<lambda>_.
     println (Text ''Memory manually freed.''))))"

text \<open>The statements of \<open>withUniquePointer\<close> after the declaration of \<open>smartPtr\<close>: the
  call \<open>smartPtr->display()\<close>, then the closing brace.\<close>

definition withUniquePointer_body :: "unique_ptr \<Rightarrow> exit_kind prog" where
  "withUniquePointer_body smartPtr =
     bnd (unique_ptr_arrow smartPtr) (\<lambda>p.
     bnd (display p) (\<lambda>_.
     ret NormalCompletion))"

definition withUniquePointer :: "unit prog" where
  "withUniquePointer =
     bnd (make_unique 42) (\<lambda>smartPtr.
     bnd (unique_ptr_scope smartPtr (withUniquePointer_body smartPtr)) (\<lambda>_.
     ret ()))"

definition main :: "int prog" where
  "main =
     bnd (println (Text ''Without Smart Pointer:'')) (\<lambda>_.
     bnd withoutSmartPointer (\<lambda>_.
     bnd (println (Text [])) (\<lambda>_.
     bnd (println (Text ''With Smart Pointer:'')) (\<lambda>_.
     bnd withUniquePointer (\<lambda>_.
     bnd (println (Text [])) (\<lambda>_.
     ret 0))))))"

subsection \<open>Reading a run\<close>

text \<open>What a program adds to standard output when started in \<open>s\<close>, and the state and
  value it ends with.\<close>

definition emitted :: "'a prog \<Rightarrow> state \<Rightarrow> event list" where
  "emitted m s =
     (case m s of Inl e \<Rightarrow> [] | Inr (x, s') \<Rightarrow> drop (length (cout s)) (cout s'))"

definition final_state :: "'a prog \<Rightarrow> state \<Rightarrow> state option" where
  "final_state m s = (case m s of Inl e \<Rightarrow> None | Inr (x, s') \<Rightarrow> Some s')"

definition exit_code :: "int prog \<Rightarrow> state \<Rightarrow> int option" where
  "exit_code m s = (case m s of Inl e \<Rightarrow> None | Inr (x, s') \<Rightarrow> Some x)"

fun ctor_ids :: "event list \<Rightarrow> ptr list" where
  "ctor_ids [] = []"
| "ctor_ids (Constructed p v # es) = p # ctor_ids es"
| "ctor_ids (e # es) = ctor_ids es"

fun dtor_ids :: "event list \<Rightarrow> ptr list" where
  "dtor_ids [] = []"
| "dtor_ids (Destructed p v # es) = p # dtor_ids es"
| "dtor_ids (e # es) = dtor_ids es"

text \<open>\<open>precedes x y es\<close>: some occurrence of \<open>x\<close> in \<open>es\<close> comes strictly before some
  occurrence of \<open>y\<close>.\<close>

fun precedes :: "'a \<Rightarrow> 'a \<Rightarrow> 'a list \<Rightarrow> bool" where
  "precedes x y [] = False"
| "precedes x y (z # zs) = (if z = x then y \<in> set zs else precedes x y zs)"

text \<open>\<open>values_ok cs es\<close> walks a trace with the list \<open>cs\<close> of the objects constructed so
  far and their values: a display or destruction line must come from an object that is
  in the list and must carry the value it was constructed with.\<close>

fun values_ok :: "(ptr \<times> 32 word) list \<Rightarrow> event list \<Rightarrow> bool" where
  "values_ok cs [] = True"
| "values_ok cs (Constructed p v # es) = values_ok ((p, v) # cs) es"
| "values_ok cs (Displayed p v # es) = (map_of cs p = Some v \<and> values_ok cs es)"
| "values_ok cs (Destructed p v # es) = (map_of cs p = Some v \<and> values_ok cs es)"
| "values_ok cs (Text s # es) = values_ok cs es"

text \<open>The end-to-end output as the specification's scenario lists it, line by line,
  with the two headers as the source prints them. It is compared below with what
  \<open>main\<close> writes.\<close>

definition spec_end_to_end_lines :: "string list" where
  "spec_end_to_end_lines =
     [''Without Smart Pointer:'',
      ''Resource constructor. Value: 42'',
      ''Value: 42'',
      ''Resource destructor. Value: 42'',
      ''Memory manually freed.'',
      [],
      ''With Smart Pointer:'',
      ''Resource constructor. Value: 42'',
      ''Value: 42'',
      [],
      ''Resource destructor. Value: 42'']"

text \<open>The state right after \<open>std::make_unique<Resource>(42)\<close> in a fresh process: object 0
  is alive and owned by \<open>smartPtr\<close>, and its construction line has been written.\<close>

definition owned_state :: state where
  "owned_state = \<lparr>heap = [0 \<mapsto> \<lparr>data = 42\<rparr>], next_id = 1, cout = [Constructed 0 42]\<rparr>"

section \<open>Evaluating the program\<close>

lemma string_of_int_42: "string_of_int 42 = ''42''"
  by (simp add: string_of_int_def string_of_nat.simps [of 42] string_of_nat.simps [of 4]
      digit_char_def)

lemma new_Resource_run:
  "new_Resource v s =
     Inr (next_id s,
          s\<lparr>heap := (heap s)(next_id s \<mapsto> \<lparr>data = v\<rparr>), next_id := Suc (next_id s),
            cout := cout s @ [Constructed (next_id s) v]\<rparr>)"
  by (simp add: new_Resource_def Resource_ctor_def bnd_def ret_def println_def Let_def)

lemma display_run:
  "heap s p = Some r \<Longrightarrow> display p s = Inr ((), s\<lparr>cout := cout s @ [Displayed p (data r)]\<rparr>)"
  by (simp add: display_def println_def)

lemma delete_Resource_run:
  "heap s p = Some r \<Longrightarrow>
   delete_Resource p s =
     Inr ((), s\<lparr>heap := (heap s)(p := None), cout := cout s @ [Destructed p (data r)]\<rparr>)"
  by (simp add: delete_Resource_def Resource_dtor_def bnd_def println_def)

lemma withoutSmartPointer_run:
  "withoutSmartPointer s =
     Inr ((),
          s\<lparr>heap := (heap s)(next_id s := None), next_id := Suc (next_id s),
            cout := cout s @ [Constructed (next_id s) 42, Displayed (next_id s) 42,
                              Destructed (next_id s) 42, Text ''Memory manually freed.'']\<rparr>)"
  by (simp add: withoutSmartPointer_def bnd_def new_Resource_run display_run
      delete_Resource_run println_def)

lemma withUniquePointer_run:
  "withUniquePointer s =
     Inr ((),
          s\<lparr>heap := (heap s)(next_id s := None), next_id := Suc (next_id s),
            cout := cout s @ [Constructed (next_id s) 42, Displayed (next_id s) 42,
                              Destructed (next_id s) 42]\<rparr>)"
  by (simp add: withUniquePointer_def withUniquePointer_body_def unique_ptr_scope_def
      make_unique_def unique_ptr_arrow_def unique_ptr_dtor_def bnd_def ret_def
      new_Resource_run display_run delete_Resource_run)

lemma main_run:
  "main s =
     Inr (0,
          s\<lparr>heap := (heap s)(next_id s := None, Suc (next_id s) := None),
            next_id := Suc (Suc (next_id s)),
            cout := cout s @
              [Text ''Without Smart Pointer:'',
               Constructed (next_id s) 42, Displayed (next_id s) 42,
               Destructed (next_id s) 42, Text ''Memory manually freed.'',
               Text [],
               Text ''With Smart Pointer:'',
               Constructed (Suc (next_id s)) 42, Displayed (Suc (next_id s)) 42,
               Destructed (Suc (next_id s)) 42,
               Text []]\<rparr>)"
  by (simp add: main_def bnd_def ret_def println_def withoutSmartPointer_run
      withUniquePointer_run)

lemma render_simps:
  "render (Constructed p 42) = ''Resource constructor. Value: 42''"
  "render (Displayed p 42) = ''Value: 42''"
  "render (Destructed p 42) = ''Resource destructor. Value: 42''"
  "render (Text s) = s"
  by (simp_all add: render_def string_of_int_42)

lemma emitted_main:
  "emitted main s =
     [Text ''Without Smart Pointer:'',
      Constructed (next_id s) 42, Displayed (next_id s) 42,
      Destructed (next_id s) 42, Text ''Memory manually freed.'',
      Text [],
      Text ''With Smart Pointer:'',
      Constructed (Suc (next_id s)) 42, Displayed (Suc (next_id s)) 42,
      Destructed (Suc (next_id s)) 42,
      Text []]"
  by (simp add: emitted_def main_run)

lemma emitted_withoutSmartPointer:
  "emitted withoutSmartPointer s =
     [Constructed (next_id s) 42, Displayed (next_id s) 42,
      Destructed (next_id s) 42, Text ''Memory manually freed.'']"
  by (simp add: emitted_def withoutSmartPointer_run)

lemma emitted_withUniquePointer:
  "emitted withUniquePointer s =
     [Constructed (next_id s) 42, Displayed (next_id s) 42, Destructed (next_id s) 42]"
  by (simp add: emitted_def withUniquePointer_run)

lemma make_unique_run:
  "make_unique v s =
     Inr (Some (next_id s),
          s\<lparr>heap := (heap s)(next_id s \<mapsto> \<lparr>data = v\<rparr>), next_id := Suc (next_id s),
            cout := cout s @ [Constructed (next_id s) v]\<rparr>)"
  by (simp add: make_unique_def bnd_def ret_def new_Resource_run)

lemma withUniquePointer_body_run:
  "heap s p = Some r \<Longrightarrow>
   withUniquePointer_body (Some p) s =
     Inr (NormalCompletion, s\<lparr>cout := cout s @ [Displayed p (data r)]\<rparr>)"
  by (simp add: withUniquePointer_body_def unique_ptr_arrow_def bnd_def ret_def display_run)

lemma before_scope_exit_run:
  "bnd (make_unique 42) withUniquePointer_body s =
     Inr (NormalCompletion,
          s\<lparr>heap := (heap s)(next_id s \<mapsto> \<lparr>data = 42\<rparr>), next_id := Suc (next_id s),
            cout := cout s @ [Constructed (next_id s) 42, Displayed (next_id s) 42]\<rparr>)"
  by (simp add: bnd_def make_unique_run withUniquePointer_body_run)

lemma emitted_before_scope_exit:
  "emitted (bnd (make_unique 42) withUniquePointer_body) s =
     [Constructed (next_id s) 42, Displayed (next_id s) 42]"
  by (simp add: emitted_def before_scope_exit_run)

lemma final_state_before_scope_exit:
  "final_state (bnd (make_unique 42) withUniquePointer_body) s =
     Some (s\<lparr>heap := (heap s)(next_id s \<mapsto> \<lparr>data = 42\<rparr>), next_id := Suc (next_id s),
              cout := cout s @ [Constructed (next_id s) 42, Displayed (next_id s) 42]\<rparr>)"
  by (simp add: final_state_def before_scope_exit_run)

lemma final_state_withUniquePointer:
  "final_state withUniquePointer s =
     Some (s\<lparr>heap := (heap s)(next_id s := None), next_id := Suc (next_id s),
              cout := cout s @ [Constructed (next_id s) 42, Displayed (next_id s) 42,
                                Destructed (next_id s) 42]\<rparr>)"
  by (simp add: final_state_def withUniquePointer_run)

lemma lifetime_run:
  "bnd (new_Resource v) (\<lambda>p. bnd (display p) (\<lambda>_. delete_Resource p)) s =
     Inr ((), s\<lparr>heap := (heap s)(next_id s := None), next_id := Suc (next_id s),
            cout := cout s @ [Constructed (next_id s) v, Displayed (next_id s) v,
                              Destructed (next_id s) v]\<rparr>)"
  by (simp add: bnd_def new_Resource_run display_run delete_Resource_run)

lemma emitted_lifetime:
  "emitted (bnd (new_Resource v) (\<lambda>p. bnd (display p) (\<lambda>_. delete_Resource p))) s =
     [Constructed (next_id s) v, Displayed (next_id s) v, Destructed (next_id s) v]"
  by (simp add: emitted_def lifetime_run)

lemma owned_state_is_after_make_unique:
  "make_unique 42 initial_state = Inr (Some 0, owned_state)"
  by (simp add: make_unique_run initial_state_def owned_state_def)

lemma lines_main:
  "map render (emitted main s) =
     [''Without Smart Pointer:'',
           ''Resource constructor. Value: 42'',
           ''Value: 42'',
           ''Resource destructor. Value: 42'',
           ''Memory manually freed.'',
           [],
           ''With Smart Pointer:'',
           ''Resource constructor. Value: 42'',
           ''Value: 42'',
           ''Resource destructor. Value: 42'',
           []]"
  by (simp add: emitted_main render_simps)

section \<open>The end-to-end output\<close>

text \<open>
  Claim C1, as the specification states it: a run prints the manual header, the
  construction, display and destruction lines, "Memory manually freed.", an empty line,
  the scoped header, the construction and display lines, then an empty line and only
  then the second destruction line. The program does not print that: \<open>smartPtr\<close> is a
  local of \<open>withUniquePointer\<close>, so the second destruction line is written when that
  function returns, before \<open>main\<close> writes the empty line.
\<close>

theorem main_output_differs_from_scenario:
  "map render (emitted main initial_state) \<noteq> spec_end_to_end_lines"
  by (simp add: emitted_main render_simps spec_end_to_end_lines_def)

text \<open>
  Claim C1, amended: started with nothing on standard output, \<open>main\<close> returns 0 and
  standard output holds exactly these eleven lines, in this order; the last two are the
  destruction line of the scoped object and then the empty line.
\<close>

theorem main_output_sequence:
  "exit_code main initial_state = Some 0 \<and>
   map_option stdout_lines (final_state main initial_state) =
     Some [''Without Smart Pointer:'',
           ''Resource constructor. Value: 42'',
           ''Value: 42'',
           ''Resource destructor. Value: 42'',
           ''Memory manually freed.'',
           [],
           ''With Smart Pointer:'',
           ''Resource constructor. Value: 42'',
           ''Value: 42'',
           ''Resource destructor. Value: 42'',
           []]"
  by (simp add: exit_code_def final_state_def main_run stdout_lines_def initial_state_def
      render_simps)

section \<open>One construction and one destruction per object\<close>

text \<open>
  Claim C2: in a run of \<open>main\<close>, from any starting state, two objects are constructed
  (the two consecutive numbers the allocator hands out), each exactly once, and the
  same two are destructed, each exactly once; every object has as many destruction
  lines as construction lines. Standard output gains two construction lines and two
  destruction lines. Each demonstration on its own constructs one object and destructs
  that object once. After a run from the initial state the free store is empty.
\<close>

theorem each_instance_constructed_and_destructed_once:
  "ctor_ids (emitted main s) = [next_id s, Suc (next_id s)] \<and>
   dtor_ids (emitted main s) = [next_id s, Suc (next_id s)] \<and>
   distinct (ctor_ids (emitted main s)) \<and>
   (\<forall>p. count_list (dtor_ids (emitted main s)) p = count_list (ctor_ids (emitted main s)) p) \<and>
   count_list (map render (emitted main s)) ''Resource constructor. Value: 42'' = 2 \<and>
   count_list (map render (emitted main s)) ''Resource destructor. Value: 42'' = 2 \<and>
   ctor_ids (emitted withoutSmartPointer s) = [next_id s] \<and>
   dtor_ids (emitted withoutSmartPointer s) = [next_id s] \<and>
   ctor_ids (emitted withUniquePointer s) = [next_id s] \<and>
   dtor_ids (emitted withUniquePointer s) = [next_id s] \<and>
   map_option heap (final_state main initial_state) = Some Map.empty"
  by (simp add: emitted_main emitted_withoutSmartPointer emitted_withUniquePointer
      render_simps final_state_def main_run initial_state_def)

section \<open>Order of the lines of the manual demonstration\<close>

text \<open>
  Claim C3, as the specification states it: the destruction line of the object of
  \<open>withoutSmartPointer\<close> comes strictly after "Memory manually freed.". In a run from
  the initial state that object is object 0; its destruction line is printed once, and
  the message does not come before it: \<open>delete rawPtr\<close> runs the destructor, and the
  message is printed by the next statement.
\<close>

theorem manual_destruction_not_after_release_message:
  "Destructed 0 42 \<in> set (emitted main initial_state) \<and>
   count_list (dtor_ids (emitted main initial_state)) 0 = 1 \<and>
   \<not> precedes (Text ''Memory manually freed.'') (Destructed 0 42) (emitted main initial_state)"
  by (simp add: emitted_main initial_state_def)

text \<open>
  Claim C3, amended: the destruction line of the object of \<open>withoutSmartPointer\<close> comes
  strictly after its display line and strictly before "Memory manually freed.", in the
  output of the demonstration and in the output of \<open>main\<close>, from any starting state.
\<close>

theorem manual_destruction_between_display_and_release_message:
  "precedes (Displayed (next_id s) 42) (Destructed (next_id s) 42) (emitted main s) \<and>
   precedes (Destructed (next_id s) 42) (Text ''Memory manually freed.'') (emitted main s) \<and>
   \<not> precedes (Text ''Memory manually freed.'') (Destructed (next_id s) 42) (emitted main s) \<and>
   emitted withoutSmartPointer s =
     [Constructed (next_id s) 42, Displayed (next_id s) 42,
      Destructed (next_id s) 42, Text ''Memory manually freed.'']"
  by (simp add: emitted_main emitted_withoutSmartPointer)

section \<open>Order of the lines of the scoped demonstration\<close>

text \<open>
  Claim C4: in the output of \<open>main\<close> the destruction line of the object of
  \<open>withUniquePointer\<close> comes after the header "With Smart Pointer:" and after the
  display line of that object; no "Memory manually freed." is printed from the header
  on, and \<open>withUniquePointer\<close> prints no such line at all (the message of the manual
  demonstration, printed earlier in the run for the other object, is not counted). The
  object is destructed exactly once. The statements of the function release nothing:
  when the last of them has run, the object is still in the free store and only its
  construction and display lines have been written; leaving the block writes the
  destruction line and removes the object.
\<close>

theorem scoped_destruction_after_display_without_release_message:
  "precedes (Text ''With Smart Pointer:'') (Destructed (Suc (next_id s)) 42) (emitted main s) \<and>
   precedes (Displayed (Suc (next_id s)) 42) (Destructed (Suc (next_id s)) 42) (emitted main s) \<and>
   \<not> precedes (Text ''With Smart Pointer:'') (Text ''Memory manually freed.'') (emitted main s) \<and>
   Text ''Memory manually freed.'' \<notin> set (emitted withUniquePointer s) \<and>
   ''Memory manually freed.'' \<notin> set (map render (emitted withUniquePointer s)) \<and>
   count_list (dtor_ids (emitted main s)) (Suc (next_id s)) = 1 \<and>
   emitted (bnd (make_unique 42) withUniquePointer_body) s =
     [Constructed (next_id s) 42, Displayed (next_id s) 42] \<and>
   map_option (\<lambda>s'. heap s' (next_id s)) (final_state (bnd (make_unique 42) withUniquePointer_body) s)
     = Some (Some \<lparr>data = 42\<rparr>) \<and>
   emitted withUniquePointer s =
     [Constructed (next_id s) 42, Displayed (next_id s) 42, Destructed (next_id s) 42] \<and>
   map_option (\<lambda>s'. heap s' (next_id s)) (final_state withUniquePointer s) = Some None"
  by (simp add: emitted_main emitted_withUniquePointer render_simps
      emitted_before_scope_exit final_state_before_scope_exit final_state_withUniquePointer)

section \<open>The value reported\<close>

text \<open>
  Claim C5: an object constructed with any value \<open>v\<close>, displayed and then deleted
  writes three lines that carry \<open>v\<close> in decimal: construction, display, destruction.
  In the output of \<open>main\<close> every display and destruction line comes from an object
  constructed earlier in that output and carries the value of its construction line
  (\<open>values_ok\<close>); no display line of either object comes before that object's
  construction line. Both demonstrations report 42.
\<close>

theorem display_and_destruction_report_constructed_value:
  "emitted (bnd (new_Resource v) (\<lambda>p. bnd (display p) (\<lambda>_. delete_Resource p))) s =
     [Constructed (next_id s) v, Displayed (next_id s) v, Destructed (next_id s) v] \<and>
   render (Constructed p v) = ''Resource constructor. Value: '' @ string_of_int (sint v) \<and>
   render (Displayed p v) = ''Value: '' @ string_of_int (sint v) \<and>
   render (Destructed p v) = ''Resource destructor. Value: '' @ string_of_int (sint v) \<and>
   values_ok [] (emitted main s) \<and>
   \<not> precedes (Displayed (next_id s) 42) (Constructed (next_id s) 42) (emitted main s) \<and>
   \<not> precedes (Displayed (Suc (next_id s)) 42) (Constructed (Suc (next_id s)) 42) (emitted main s) \<and>
   map render (emitted withoutSmartPointer s) =
     [''Resource constructor. Value: 42'', ''Value: 42'', ''Resource destructor. Value: 42'',
      ''Memory manually freed.''] \<and>
   map render (emitted withUniquePointer s) =
     [''Resource constructor. Value: 42'', ''Value: 42'', ''Resource destructor. Value: 42'']"
  by (simp add: emitted_lifetime emitted_main emitted_withoutSmartPointer
      emitted_withUniquePointer render_simps) (simp add: render_def)

section \<open>Exit code\<close>

text \<open>
  Claim C7: \<open>main\<close> takes no argument; from every starting state it returns 0, and no
  step of it fails: both demonstrations run to their end without an error value.
\<close>

theorem main_returns_zero_from_every_state:
  "exit_code main s = Some 0 \<and>
   (\<exists>s'. main s = Inr (0, s')) \<and>
   (\<exists>s'. withoutSmartPointer s = Inr ((), s')) \<and>
   (\<exists>s'. withUniquePointer s = Inr ((), s'))"
  by (simp add: exit_code_def main_run withoutSmartPointer_run withUniquePointer_run)

section \<open>Two runs\<close>

text \<open>
  Claim C8: the lines \<open>main\<close> prints and its exit code do not depend on the state it
  starts in, so any two runs print the same lines; a second run that starts in the
  state the first one ended in prints the same lines again; and a run from the initial
  state leaves the free store as it found it.
\<close>

theorem runs_print_the_same_lines:
  "map render (emitted main s1) = map render (emitted main s2) \<and>
   exit_code main s1 = exit_code main s2 \<and>
   map render (emitted (bnd main (\<lambda>_. main)) s) =
     map render (emitted main s) @ map render (emitted main s) \<and>
   map_option heap (final_state main initial_state) = Some (heap initial_state)"
  apply (simp add: lines_main exit_code_def main_run final_state_def initial_state_def)
  apply (simp add: emitted_def bnd_def main_run render_simps)
  done

section \<open>When the scoped object is destructed\<close>

text \<open>
  Claim C9: the destruction line of the scoped object is the last thing
  \<open>withUniquePointer\<close> writes before it returns. In the output of \<open>main\<close> it is
  followed by the empty line, which is the last line; the last line of the output is
  not a destruction line.
\<close>

theorem scoped_destruction_precedes_final_blank_line:
  "last (emitted withUniquePointer s) = Destructed (next_id s) 42 \<and>
   drop 9 (emitted main s) = [Destructed (Suc (next_id s)) 42, Text []] \<and>
   precedes (Destructed (Suc (next_id s)) 42) (Text []) (drop 7 (emitted main s)) \<and>
   last (map render (emitted main s)) = [] \<and>
   last (map render (emitted main s)) \<noteq> ''Resource destructor. Value: 42'' \<and>
   exit_code main s = Some 0"
  by (simp add: emitted_withUniquePointer emitted_main render_simps exit_code_def main_run)

section \<open>display does not write the object\<close>

text \<open>
  Claim C10: for an object that is alive, \<open>display\<close> succeeds and leaves the free store
  unchanged (so the field \<open>data\<close> of every object is what it was); the destructor's body
  and a plain output statement do not change it either. \<open>new\<close> stores the constructor's
  argument in \<open>data\<close>, and a \<open>display\<close> after it still finds that value.
\<close>

theorem display_leaves_data_unchanged:
  assumes "heap s p = Some r"
  shows "(\<exists>s'. display p s = Inr ((), s') \<and> heap s' = heap s \<and> next_id s' = next_id s \<and>
               cout s' = cout s @ [Displayed p (data r)]) \<and>
         (\<exists>s'. Resource_dtor p s = Inr ((), s') \<and> heap s' = heap s) \<and>
         (\<exists>s'. println e s = Inr ((), s') \<and> heap s' = heap s) \<and>
         (\<exists>s'. new_Resource v s = Inr (next_id s, s') \<and>
               heap s' (next_id s) = Some \<lparr>data = v\<rparr> \<and>
               (\<exists>s''. display (next_id s) s' = Inr ((), s'') \<and>
                      heap s'' (next_id s) = Some \<lparr>data = v\<rparr>))"
  using assms
  by (simp add: display_run Resource_dtor_def println_def new_Resource_run)

text \<open>The hypothesis of C10 holds for object 0 right after \<open>make_unique\<close>.\<close>

theorem display_leaves_data_unchanged_witness:
  "heap owned_state 0 = Some \<lparr>data = 42\<rparr> \<and>
   (\<exists>s'. display 0 owned_state = Inr ((), s') \<and> heap s' = heap owned_state \<and>
         heap s' 0 = Some \<lparr>data = 42\<rparr>)"
proof -
  have live: "heap owned_state 0 = Some \<lparr>data = 42\<rparr>"
    by (simp add: owned_state_def)
  from display_leaves_data_unchanged [OF live]
  obtain s' where "display 0 owned_state = Inr ((), s')" and "heap s' = heap owned_state"
    by blast
  with live show ?thesis by simp
qed

end
